theory Spec2Isabelle
  imports Complex_Main "HOL-Library.Sublist" "HOL-Library.Multiset"
begin

section \<open>The CityConnect backend (server.js with the Supabase datastore)\<close>

text \<open>
  The backend is an Express application whose handlers call a managed datastore
  (Supabase: an authentication service and Postgres tables). The embedding follows
  the main server file route by route. A handler is a function from the world (the
  tables, the answers of the authentication service, the clock and the random source)
  and the parsed request to the response, the world after the request and the list of
  external calls the request made, in order.

  \<open>app\<close> is the router with the routes' middleware and handlers, for a request
  whose body has been parsed. \<open>server\<close> puts in front of it the global middleware
  that can answer a request itself: CORS, the rate limiter and the body parsers,
  whose errors go to the error-handling middleware. helmet only sets headers.
\<close>

subsection \<open>JavaScript values and string operations\<close>

text \<open>
  A JSON value of a request body. A field that is absent (\<open>undefined\<close>) is \<open>None\<close>
  of \<open>json option\<close>. Numbers are rationals: every finite double is one.
\<close>

datatype json =
    JNull
  | JBool bool
  | JNum rat
  | JStr string
  | JArr "json list"
  | JObj "(string \<times> json) list"

text \<open>\<open>falsy v\<close> is JavaScript's \<open>!v\<close>.\<close>

fun falsy :: "json option \<Rightarrow> bool" where
  "falsy None = True"
| "falsy (Some JNull) = True"
| "falsy (Some (JBool b)) = (b = False)"
| "falsy (Some (JNum n)) = (n = 0)"
| "falsy (Some (JStr s)) = (s = [])"
| "falsy (Some (JArr xs)) = False"
| "falsy (Some (JObj kvs)) = False"

text \<open>\<open>a || b\<close> on a column value that may be null.\<close>

definition js_or :: "json \<Rightarrow> json \<Rightarrow> json" where
  "js_or a b = (if falsy (Some a) then b else a)"

text \<open>\<open>s.split(sep)\<close> for a one-character separator: never empty, \<open>''''.split\<close> is \<open>['''']\<close>.\<close>

fun split :: "char \<Rightarrow> string \<Rightarrow> string list" where
  "split sep [] = [[]]"
| "split sep (c # cs) =
     (if c = sep then [] # split sep cs
      else (case split sep cs of
              [] \<Rightarrow> [[c]]
            | w # ws \<Rightarrow> (c # w) # ws))"

text \<open>\<open>xs[i]\<close>: \<open>undefined\<close> out of range.\<close>

definition at_index :: "'a list \<Rightarrow> nat \<Rightarrow> 'a option" where
  "at_index xs i = (if i < length xs then Some (xs ! i) else None)"

definition upper_chars :: string where
  "upper_chars = ''ABCDEFGHIJKLMNOPQRSTUVWXYZ''"

definition lower_chars :: string where
  "lower_chars = ''abcdefghijklmnopqrstuvwxyz''"

definition digit_chars :: string where
  "digit_chars = ''0123456789''"

text \<open>
  Case folding of the letters A to Z; every other character is left as it is. This is
  how Express compares the literal parts of a route path, and it is JavaScript's
  \<open>toLowerCase\<close> on a string of ASCII characters. For a string with a character
  outside ASCII, JavaScript's \<open>toLowerCase\<close> follows the Unicode case tables of the
  engine: see \<open>js_toLowerCase\<close> below.
\<close>

definition lower_char :: "char \<Rightarrow> char" where
  "lower_char c = (case map_of (zip upper_chars lower_chars) c of Some d \<Rightarrow> d | None \<Rightarrow> c)"

definition upper_char :: "char \<Rightarrow> char" where
  "upper_char c = (case map_of (zip lower_chars upper_chars) c of Some d \<Rightarrow> d | None \<Rightarrow> c)"

definition toLowerCase :: "string \<Rightarrow> string" where
  "toLowerCase s = map lower_char s"

definition toUpperCase :: "string \<Rightarrow> string" where
  "toUpperCase s = map upper_char s"

definition ascii :: "string \<Rightarrow> bool" where
  "ascii s = list_all (\<lambda>c. of_char c < (128 :: nat)) s"

text \<open>\<open>s.includes(t)\<close>: \<open>t\<close> occurs in \<open>s\<close> as a contiguous substring.\<close>

fun str_includes :: "string \<Rightarrow> string \<Rightarrow> bool" where
  "str_includes [] t = (t = [])"
| "str_includes (c # cs) t = (prefix t (c # cs) \<or> str_includes cs t)"

text \<open>\<open>s.substr(start, len)\<close> for a start inside the string's index range.\<close>

definition substr :: "string \<Rightarrow> nat \<Rightarrow> nat \<Rightarrow> string" where
  "substr s start len = take len (drop start s)"

text \<open>The decimal digits of a natural number, as \<open>String(n)\<close> prints an integer.\<close>

fun decimal :: "nat \<Rightarrow> string" where
  "decimal n =
     (if n < 10 then [digit_chars ! n]
      else decimal (n div 10) @ [digit_chars ! (n mod 10)])"

subsection \<open>Requests and responses\<close>

text \<open>
  Express serves \<open>HEAD\<close> from the \<open>GET\<close> routes. The server registers no route for
  \<open>OPTIONS\<close> or any other method.
\<close>

datatype http_method = GET | HEAD | POST | OPTIONS | OtherMethod

text \<open>
  A query parameter is a string, or an array or object (a repeated or bracketed key),
  which is truthy and has no \<open>toLowerCase\<close>.
\<close>

datatype qval = QStr string | QNested

fun q_falsy :: "qval option \<Rightarrow> bool" where
  "q_falsy None = True"
| "q_falsy (Some (QStr s)) = (s = [])"
| "q_falsy (Some QNested) = False"

text \<open>
  The path is the list of its segments (\<open>/api/vehicles/7/location\<close> is
  \<open>[''api'', ''vehicles'', ''7'', ''location'']\<close>). A trailing slash, which Express
  ignores, is not a segment.
\<close>

record request =
  meth :: http_method
  path :: "string list"
  authorization :: "string option"
  body :: "string \<rightharpoonup> json"
  query :: "string \<rightharpoonup> qval"

subsection \<open>The datastore\<close>

text \<open>
  Timestamps are milliseconds since the epoch (\<open>Date.now()\<close>); a date is the number of
  its UTC day. A table is the list of its rows in insertion order; an insert appends.
  Vehicle and user ids are strings. Text columns keep the JSON value they were given.
\<close>

record auth_user =
  user_id :: string
  user_email :: string

record profile =
  p_id :: string
  p_email :: json
  p_name :: json
  p_phone :: json
  p_role :: string
  p_created_at :: nat
  p_updated_at :: nat

record vehicle =
  v_id :: string
  v_vehicle_number :: json
  v_route_name :: "string option"
  v_status :: string
  v_capacity :: json
  v_vehicle_type :: json
  v_next_stop :: json
  v_eta :: json
  v_base_fare :: json
  v_created_at :: nat
  v_updated_at :: nat

record location =
  l_vehicle_id :: string
  l_latitude :: json
  l_longitude :: json
  l_speed :: json
  l_heading :: json
  l_updated_by :: string
  l_created_at :: nat
  l_updated_at :: nat

record ticket =
  t_ticket_id :: string
  t_user_id :: string
  t_vehicle_id :: json
  t_from_location :: json
  t_to_location :: json
  t_fare_amount :: rat
  t_booking_status :: string
  t_travel_date :: nat
  t_created_at :: nat
  t_updated_at :: nat

datatype table = UserProfiles | Vehicles | VehicleLocations | Tickets

text \<open>The calls a request makes to the external services.\<close>

datatype ext_call =
    AuthGetUser string
  | AuthSignUp
  | AuthSignInWithPassword
  | AuthSignOut
  | DbSelect table
  | DbInsert table
  | DbUpdate table

text \<open>
  \<open>supabase.auth.getUser(token)\<close> resolves to \<open>{data: {user}, error}\<close> or throws.
\<close>

datatype getuser_result =
    GetUserReturns "auth_user option" bool
  | GetUserThrows

text \<open>
  \<open>signUp\<close> and \<open>signInWithPassword\<close> resolve to an error with its message, or to the
  user and the session (an opaque token, null when the service issues none).
\<close>

datatype auth_result =
    AuthError string
  | AuthOk auth_user "string option"

text \<open>
  The world: the four tables and what the external services answer. \<open>db_error c\<close>
  says that the datastore answers the call \<open>c\<close> with an error object;
  \<open>numeric_cast\<close> is the datastore's cast of a JSON value to the numeric column
  \<open>fare_amount\<close> (\<open>None\<close>: the value is refused); \<open>clock\<close> is \<open>Date.now()\<close> and
  \<open>random36\<close> is \<open>Math.random().toString(36)\<close>; \<open>unicode_toLowerCase\<close> is the
  engine's \<open>toLowerCase\<close> on a string that has a character outside ASCII.
\<close>

record world =
  user_profiles :: "profile list"
  vehicles :: "vehicle list"
  vehicle_locations :: "location list"
  tickets :: "ticket list"
  auth_getUser :: "string \<Rightarrow> getuser_result"
  auth_signUp :: "json \<Rightarrow> json \<Rightarrow> auth_result"
  auth_signInWithPassword :: "json \<Rightarrow> json \<Rightarrow> auth_result"
  auth_signOut_error :: bool
  db_error :: "ext_call \<Rightarrow> bool"
  numeric_cast :: "json \<Rightarrow> rat option"
  clock :: nat
  random36 :: string
  unicode_toLowerCase :: "string \<Rightarrow> string"

subsection \<open>Responses\<close>

record vehicle_view =
  vv_id :: string
  vv_number :: json
  vv_route :: "string option"
  vv_status :: string
  vv_capacity :: json
  vv_type :: json
  vv_lat :: json
  vv_lng :: json
  vv_lastUpdated :: "nat option"
  vv_nextStop :: json
  vv_eta :: json

record ticket_view =
  tv_id :: string
  tv_vehicleNumber :: json
  tv_route :: "string option"
  tv_from :: json
  tv_to :: json
  tv_fare :: rat
  tv_bookedAt :: nat
  tv_travelDate :: nat
  tv_status :: string

record route_view =
  rv_id :: string
  rv_vehicleNumber :: json
  rv_route :: "string option"
  rv_type :: json
  rv_estimatedFare :: json
  rv_estimatedDuration :: string
  rv_nextDeparture :: string

record stats_view =
  passengers :: nat
  revenue :: rat
  trips :: nat
  hours :: rat
  activeVehicles :: nat

text \<open>
  The JSON bodies the handlers send. \<open>SignupBody\<close> and \<open>LoginBody\<close> carry the user's
  id, email, name and role and the session; \<open>LocationBody\<close> the vehicle id, latitude,
  longitude, timestamp, speed and heading; \<open>LocationUpdatedBody\<close> the vehicle id,
  latitude, longitude and timestamp; \<open>TicketBookedBody\<close> the ticket id, vehicle number,
  route, from, to, fare and booking time; \<open>RoutePlanBody\<close> the two query values, the
  routes and \<open>totalOptions\<close>. \<open>PlainText\<close> and \<open>EmptyBody\<close> are what the rate limiter
  and the CORS middleware send.
\<close>

datatype payload =
    ErrorBody string
  | PlainText string
  | EmptyBody
  | HealthBody
  | SignupBody string string json string "string option"
  | LoginBody string string json string "string option"
  | LogoutBody
  | VehiclesBody "vehicle_view list"
  | LocationBody string json json nat json json
  | LocationUpdatedBody string json json nat
  | TicketBookedBody string json "string option" json json json nat
  | TicketsBody "ticket_view list"
  | RoutePlanBody qval qval "route_view list" nat
  | StatsBody stats_view

record response =
  status :: nat
  content :: payload

definition reply :: "nat \<Rightarrow> payload \<Rightarrow> response" where
  "reply code b = \<lparr>status = code, content = b\<rparr>"

text \<open>What a handler returns: the response, the world afterwards, the external calls.\<close>

type_synonym result = "response \<times> world \<times> ext_call list"

definition response_of :: "result \<Rightarrow> response" where
  "response_of r = fst r"

definition world_of :: "result \<Rightarrow> world" where
  "world_of r = fst (snd r)"

definition calls_of :: "result \<Rightarrow> ext_call list" where
  "calls_of r = snd (snd r)"

subsection \<open>The authorization middleware\<close>

text \<open>
  \<open>authHeader && authHeader.split(' ')[1]\<close>: \<open>None\<close> is \<open>undefined\<close>; an empty header is
  falsy and is the value of the conjunction.
\<close>

definition header_token :: "string option \<Rightarrow> string option" where
  "header_token authHeader =
     (case authHeader of
        None \<Rightarrow> None
      | Some h \<Rightarrow> if h = [] then Some [] else at_index (split CHR '' '' h) 1)"

text \<open>\<open>!token\<close>\<close>

definition no_token :: "string option \<Rightarrow> bool" where
  "no_token token = (case token of None \<Rightarrow> True | Some t \<Rightarrow> t = [])"

text \<open>
  \<open>authenticateToken(req, res, next)\<close>; \<open>next\<close> is the route's handler, which receives
  the user the middleware stored in \<open>req.user\<close>. The middleware's own call to the
  authentication service comes first in the list of calls.
\<close>

definition authenticateToken ::
  "world \<Rightarrow> request \<Rightarrow> (auth_user \<Rightarrow> result) \<Rightarrow> result" where
  "authenticateToken w req next =
     (let token = header_token (authorization req) in
      if no_token token then
        (reply 401 (ErrorBody ''Access token required''), w, [])
      else
        (case token of
           None \<Rightarrow> (reply 401 (ErrorBody ''Access token required''), w, [])
         | Some t \<Rightarrow>
            (case auth_getUser w t of
               GetUserThrows \<Rightarrow>
                 (reply 403 (ErrorBody ''Token verification failed''), w, [AuthGetUser t])
             | GetUserReturns None err \<Rightarrow>
                 (reply 403 (ErrorBody ''Invalid or expired token''), w, [AuthGetUser t])
             | GetUserReturns (Some user) err \<Rightarrow>
                 if err then
                   (reply 403 (ErrorBody ''Invalid or expired token''), w, [AuthGetUser t])
                 else
                   (case next user of (res, w', calls) \<Rightarrow> (res, w', AuthGetUser t # calls)))))"

subsection \<open>Datastore queries shared by the handlers\<close>

text \<open>\<open>.single()\<close>: the row when exactly one matches, otherwise no data (and an error).\<close>

definition single :: "'a list \<Rightarrow> 'a option" where
  "single rows = (case rows of [r] \<Rightarrow> Some r | _ \<Rightarrow> None)"

text \<open>
  \<open>from('user_profiles').select('role').eq('id', uid).single()\<close>, the role check's
  query; the three role-checked handlers read only \<open>data\<close> of its answer.
\<close>

definition select_profile :: "world \<Rightarrow> string \<Rightarrow> profile option" where
  "select_profile w uid =
     (if db_error w (DbSelect UserProfiles) then None
      else single (filter (\<lambda>p. p_id p = uid) (user_profiles w)))"

text \<open>\<open>from('vehicles').select(...).eq('id', vehicleId).single()\<close>\<close>

definition select_vehicle :: "world \<Rightarrow> json \<Rightarrow> vehicle option" where
  "select_vehicle w vehicleId =
     (if db_error w (DbSelect Vehicles) then None
      else single (filter (\<lambda>v. JStr (v_id v) = vehicleId) (vehicles w)))"

text \<open>\<open>.order('created_at', {ascending: false})\<close>\<close>

definition order_desc :: "('a \<Rightarrow> nat) \<Rightarrow> 'a list \<Rightarrow> 'a list" where
  "order_desc key rows = rev (sort_key key rows)"

text \<open>
  A body field after its truthiness check; an absent key reaches the datastore as null.
\<close>

definition field_value :: "json option \<Rightarrow> json" where
  "field_value v = (case v of None \<Rightarrow> JNull | Some x \<Rightarrow> x)"

definition ms_per_day :: nat where
  "ms_per_day = 86400000"

text \<open>\<open>new Date().toISOString().split('T')[0]\<close>: the UTC day of the clock.\<close>

definition today :: "world \<Rightarrow> nat" where
  "today w = clock w div ms_per_day"

definition internal_error :: response where
  "internal_error = reply 500 (ErrorBody ''Internal server error'')"

subsection \<open>Handlers without authentication\<close>

definition health :: "world \<Rightarrow> request \<Rightarrow> result" where
  "health w req = (reply 200 HealthBody, w, [])"

text \<open>
  \<open>POST /api/auth/signup\<close>. The role has passed the enum check when the profile row
  is written, so it is one of the two strings.
\<close>

definition role_string :: "json option \<Rightarrow> string" where
  "role_string r = (case r of Some (JStr s) \<Rightarrow> s | _ \<Rightarrow> [])"

definition signup :: "world \<Rightarrow> request \<Rightarrow> result" where
  "signup w req =
     (let email = body req ''email''; password = body req ''password'';
          name = body req ''name''; phone = body req ''phone''; role = body req ''role''
      in
      if falsy email \<or> falsy password \<or> falsy name \<or> falsy phone \<or> falsy role then
        (reply 400 (ErrorBody ''All fields are required''), w, [])
      else if role \<noteq> Some (JStr ''traveller'') \<and> role \<noteq> Some (JStr ''staff'') then
        (reply 400 (ErrorBody ''Invalid role''), w, [])
      else
        (case auth_signUp w (field_value email) (field_value password) of
           AuthError msg \<Rightarrow> (reply 400 (ErrorBody msg), w, [AuthSignUp])
         | AuthOk user session \<Rightarrow>
             if db_error w (DbInsert UserProfiles) then
               (reply 500 (ErrorBody ''Failed to create user profile''), w,
                [AuthSignUp, DbInsert UserProfiles])
             else
               (reply 201
                  (SignupBody (user_id user) (user_email user) (field_value name)
                     (role_string role) session),
                w\<lparr>user_profiles := user_profiles w @
                    [\<lparr>p_id = user_id user, p_email = field_value email,
                      p_name = field_value name, p_phone = field_value phone,
                      p_role = role_string role,
                      p_created_at = clock w, p_updated_at = clock w\<rparr>]\<rparr>,
                [AuthSignUp, DbInsert UserProfiles])))"

text \<open>
  \<open>POST /api/auth/login\<close>. Here the profile query's error is checked: no row, or
  several, is the 500.
\<close>

definition login :: "world \<Rightarrow> request \<Rightarrow> result" where
  "login w req =
     (let email = body req ''email''; password = body req ''password'' in
      if falsy email \<or> falsy password then
        (reply 400 (ErrorBody ''Email and password are required''), w, [])
      else
        (case auth_signInWithPassword w (field_value email) (field_value password) of
           AuthError msg \<Rightarrow>
             (reply 401 (ErrorBody ''Invalid credentials''), w, [AuthSignInWithPassword])
         | AuthOk user session \<Rightarrow>
             (case select_profile w (user_id user) of
                None \<Rightarrow>
                  (reply 500 (ErrorBody ''Failed to fetch user profile''), w,
                   [AuthSignInWithPassword, DbSelect UserProfiles])
              | Some profileData \<Rightarrow>
                  (reply 200
                     (LoginBody (user_id user) (user_email user) (p_name profileData)
                        (p_role profileData) session),
                   w, [AuthSignInWithPassword, DbSelect UserProfiles]))))"

subsection \<open>Handlers behind the authorization middleware\<close>

text \<open>\<open>POST /api/auth/logout\<close>\<close>

definition logout :: "world \<Rightarrow> request \<Rightarrow> auth_user \<Rightarrow> result" where
  "logout w req user =
     (if auth_signOut_error w then
        (reply 500 (ErrorBody ''Logout failed''), w, [AuthSignOut])
      else (reply 200 LogoutBody, w, [AuthSignOut]))"

text \<open>
  \<open>GET /api/vehicles\<close>. The query embeds each vehicle's location rows as
  \<open>current_location\<close> and asks for no order among them: they come in table order.
\<close>

definition current_location :: "world \<Rightarrow> vehicle \<Rightarrow> location list" where
  "current_location w v = filter (\<lambda>l. l_vehicle_id l = v_id v) (vehicle_locations w)"

definition vehicle_view_of :: "world \<Rightarrow> vehicle \<Rightarrow> vehicle_view" where
  "vehicle_view_of w v =
     \<lparr>vv_id = v_id v,
      vv_number = v_vehicle_number v,
      vv_route = v_route_name v,
      vv_status = v_status v,
      vv_capacity = v_capacity v,
      vv_type = v_vehicle_type v,
      vv_lat = (case at_index (current_location w v) 0 of
                  None \<Rightarrow> JNull | Some l \<Rightarrow> js_or (l_latitude l) JNull),
      vv_lng = (case at_index (current_location w v) 0 of
                  None \<Rightarrow> JNull | Some l \<Rightarrow> js_or (l_longitude l) JNull),
      vv_lastUpdated = (case at_index (current_location w v) 0 of
                  None \<Rightarrow> None | Some l \<Rightarrow> Some (l_updated_at l)),
      vv_nextStop = v_next_stop v,
      vv_eta = v_eta v\<rparr>"

definition listVehicles :: "world \<Rightarrow> request \<Rightarrow> auth_user \<Rightarrow> result" where
  "listVehicles w req user =
     (if db_error w (DbSelect Vehicles) then
        (reply 500 (ErrorBody ''Failed to fetch vehicles''), w, [DbSelect Vehicles])
      else
        (reply 200 (VehiclesBody (map (vehicle_view_of w) (order_desc v_created_at (vehicles w)))),
         w, [DbSelect Vehicles]))"

text \<open>\<open>GET /api/vehicles/:id/location\<close>\<close>

definition getLocation :: "world \<Rightarrow> request \<Rightarrow> auth_user \<Rightarrow> string \<Rightarrow> result" where
  "getLocation w req user vid =
     (if db_error w (DbSelect VehicleLocations) then
        (reply 500 (ErrorBody ''Failed to fetch vehicle location''), w,
         [DbSelect VehicleLocations])
      else
        (case take 1 (order_desc l_created_at
                 (filter (\<lambda>l. l_vehicle_id l = vid) (vehicle_locations w))) of
           [] \<Rightarrow>
             (reply 404 (ErrorBody ''Vehicle location not found''), w,
              [DbSelect VehicleLocations])
         | l # rest \<Rightarrow>
             (reply 200
                (LocationBody vid (l_latitude l) (l_longitude l) (l_created_at l)
                   (l_speed l) (l_heading l)),
              w, [DbSelect VehicleLocations])))"

text \<open>
  \<open>POST /api/vehicles/:id/location\<close>. The role check reads \<open>profileData.role\<close> without
  looking at the query's error: with no data the read throws and the handler's
  \<open>catch\<close> answers 500. The update of the vehicle's status is awaited and its answer
  is not looked at.
\<close>

definition postLocation :: "world \<Rightarrow> request \<Rightarrow> auth_user \<Rightarrow> string \<Rightarrow> result" where
  "postLocation w req user vid =
     (let latitude = body req ''latitude''; longitude = body req ''longitude'';
          speed = (case body req ''speed'' of None \<Rightarrow> JNum 0 | Some s \<Rightarrow> s);
          heading = (case body req ''heading'' of None \<Rightarrow> JNum 0 | Some h \<Rightarrow> h)
      in
      case select_profile w (user_id user) of
        None \<Rightarrow> (internal_error, w, [DbSelect UserProfiles])
      | Some profileData \<Rightarrow>
          if p_role profileData \<noteq> ''staff'' then
            (reply 403 (ErrorBody ''Only staff can update vehicle locations''), w,
             [DbSelect UserProfiles])
          else if falsy latitude \<or> falsy longitude then
            (reply 400 (ErrorBody ''Latitude and longitude are required''), w,
             [DbSelect UserProfiles])
          else if db_error w (DbInsert VehicleLocations) then
            (reply 500 (ErrorBody ''Failed to update vehicle location''), w,
             [DbSelect UserProfiles, DbInsert VehicleLocations])
          else
            (let row = \<lparr>l_vehicle_id = vid, l_latitude = field_value latitude,
                        l_longitude = field_value longitude, l_speed = speed,
                        l_heading = heading, l_updated_by = user_id user,
                        l_created_at = clock w, l_updated_at = clock w\<rparr>;
                 w1 = w\<lparr>vehicle_locations := vehicle_locations w @ [row]\<rparr>;
                 w2 = (if db_error w (DbUpdate Vehicles) then w1
                       else w1\<lparr>vehicles :=
                              map (\<lambda>v. if v_id v = vid
                                        then v\<lparr>v_status := ''active'', v_updated_at := clock w\<rparr>
                                        else v)
                                  (vehicles w1)\<rparr>)
             in (reply 200
                   (LocationUpdatedBody vid (field_value latitude) (field_value longitude)
                      (l_created_at row)),
                 w2, [DbSelect UserProfiles, DbInsert VehicleLocations, DbUpdate Vehicles])))"

text \<open>
  The ticket identifier:
  \<open>`TKT-${Date.now()}-${Math.random().toString(36).substr(2, 6).toUpperCase()}`\<close>
\<close>

definition ticketId :: "nat \<Rightarrow> string \<Rightarrow> string" where
  "ticketId now rnd36 = ''TKT-'' @ decimal now @ ''-'' @ toUpperCase (substr rnd36 2 6)"

text \<open>
  \<open>POST /api/tickets/book\<close>. The four fields are checked before the role. The vehicle
  is looked up without a check; its fields are read only when the response is built,
  after the insert.
\<close>

definition bookTicket :: "world \<Rightarrow> request \<Rightarrow> auth_user \<Rightarrow> result" where
  "bookTicket w req user =
     (let vehicleId = body req ''vehicleId''; fromLocation = body req ''fromLocation'';
          toLocation = body req ''toLocation''; fare = body req ''fare''
      in
      if falsy vehicleId \<or> falsy fromLocation \<or> falsy toLocation \<or> falsy fare then
        (reply 400 (ErrorBody ''All booking details are required''), w, [])
      else
        (case select_profile w (user_id user) of
           None \<Rightarrow> (internal_error, w, [DbSelect UserProfiles])
         | Some profileData \<Rightarrow>
             if p_role profileData \<noteq> ''traveller'' then
               (reply 403 (ErrorBody ''Only travellers can book tickets''), w,
                [DbSelect UserProfiles])
             else
               (let vehicleData = select_vehicle w (field_value vehicleId);
                    tid = ticketId (clock w) (random36 w);
                    calls = [DbSelect UserProfiles, DbSelect Vehicles, DbInsert Tickets]
                in
                if db_error w (DbInsert Tickets) then
                  (reply 500 (ErrorBody ''Failed to book ticket''), w, calls)
                else
                  (case numeric_cast w (field_value fare) of
                     None \<Rightarrow> (reply 500 (ErrorBody ''Failed to book ticket''), w, calls)
                   | Some amount \<Rightarrow>
                      (let row = \<lparr>t_ticket_id = tid, t_user_id = user_id user,
                                  t_vehicle_id = field_value vehicleId,
                                  t_from_location = field_value fromLocation,
                                  t_to_location = field_value toLocation,
                                  t_fare_amount = amount,
                                  t_booking_status = ''confirmed'',
                                  t_travel_date = today w,
                                  t_created_at = clock w, t_updated_at = clock w\<rparr>;
                           w1 = w\<lparr>tickets := tickets w @ [row]\<rparr>
                       in
                       case vehicleData of
                         None \<Rightarrow> (internal_error, w1, calls)
                       | Some v \<Rightarrow>
                           (reply 201
                              (TicketBookedBody tid (v_vehicle_number v) (v_route_name v)
                                 (field_value fromLocation) (field_value toLocation)
                                 (field_value fare) (t_created_at row)),
                            w1, calls))))))"

text \<open>
  \<open>GET /api/tickets\<close>. The query asks for the caller's rows (\<open>.eq('user_id',
  req.user.id)\<close>), each with its vehicle embedded; a row whose vehicle is null makes
  the shaping throw.
\<close>

definition select_user_tickets :: "world \<Rightarrow> string \<Rightarrow> ticket list" where
  "select_user_tickets w uid =
     order_desc t_created_at (filter (\<lambda>t. t_user_id t = uid) (tickets w))"

definition ticket_view_of :: "world \<Rightarrow> ticket \<Rightarrow> ticket_view option" where
  "ticket_view_of w t =
     (case find (\<lambda>v. JStr (v_id v) = t_vehicle_id t) (vehicles w) of
        None \<Rightarrow> None
      | Some v \<Rightarrow>
          Some \<lparr>tv_id = t_ticket_id t,
                tv_vehicleNumber = v_vehicle_number v,
                tv_route = v_route_name v,
                tv_from = t_from_location t,
                tv_to = t_to_location t,
                tv_fare = t_fare_amount t,
                tv_bookedAt = t_created_at t,
                tv_travelDate = t_travel_date t,
                tv_status = t_booking_status t\<rparr>)"

definition listTickets :: "world \<Rightarrow> request \<Rightarrow> auth_user \<Rightarrow> result" where
  "listTickets w req user =
     (if db_error w (DbSelect Tickets) then
        (reply 500 (ErrorBody ''Failed to fetch tickets''), w, [DbSelect Tickets])
      else
        (case those (map (ticket_view_of w) (select_user_tickets w (user_id user))) of
           None \<Rightarrow> (internal_error, w, [DbSelect Tickets])
         | Some views \<Rightarrow> (reply 200 (TicketsBody views), w, [DbSelect Tickets])))"

text \<open>JavaScript's \<open>s.toLowerCase()\<close>.\<close>

definition js_toLowerCase :: "world \<Rightarrow> string \<Rightarrow> string" where
  "js_toLowerCase w s = (if ascii s then toLowerCase s else unicode_toLowerCase w s)"

text \<open>
  \<open>GET /api/routes/plan\<close>. The filter callback lowers the route name and the query
  values: a null route name, or a query value that is not a string, makes it throw.
  The second disjunct is evaluated only when the first is false. The query asks the
  datastore for no order; the model takes the rows in table order.
\<close>

definition route_matches :: "world \<Rightarrow> qval \<Rightarrow> qval \<Rightarrow> vehicle \<Rightarrow> bool option" where
  "route_matches w from_q to_q v =
     (case v_route_name v of
        None \<Rightarrow> None
      | Some route_name \<Rightarrow>
          (case from_q of
             QNested \<Rightarrow> None
           | QStr f \<Rightarrow>
               if str_includes (js_toLowerCase w route_name) (js_toLowerCase w f)
               then Some True
               else (case to_q of
                       QNested \<Rightarrow> None
                     | QStr t \<Rightarrow>
                         Some (str_includes (js_toLowerCase w route_name)
                                 (js_toLowerCase w t)))))"

text \<open>\<open>data.filter(callback)\<close> for a callback that may throw (\<open>None\<close>).\<close>

fun filter_throwing :: "('a \<Rightarrow> bool option) \<Rightarrow> 'a list \<Rightarrow> 'a list option" where
  "filter_throwing f [] = Some []"
| "filter_throwing f (x # xs) =
     (case f x of
        None \<Rightarrow> None
      | Some keep \<Rightarrow>
          (case filter_throwing f xs of
             None \<Rightarrow> None
           | Some ys \<Rightarrow> Some (if keep then x # ys else ys)))"

definition route_view_of :: "vehicle \<Rightarrow> route_view" where
  "route_view_of v =
     \<lparr>rv_id = v_id v,
      rv_vehicleNumber = v_vehicle_number v,
      rv_route = v_route_name v,
      rv_type = v_vehicle_type v,
      rv_estimatedFare = js_or (v_base_fare v) (JNum 20),
      rv_estimatedDuration = ''25-30 mins'',
      rv_nextDeparture = ''5 mins''\<rparr>"

definition planRoute :: "world \<Rightarrow> request \<Rightarrow> auth_user \<Rightarrow> result" where
  "planRoute w req user =
     (let from_q = query req ''from''; to_q = query req ''to'' in
      if q_falsy from_q \<or> q_falsy to_q then
        (reply 400 (ErrorBody ''From and to locations are required''), w, [])
      else if db_error w (DbSelect Vehicles) then
        (reply 500 (ErrorBody ''Failed to fetch routes''), w, [DbSelect Vehicles])
      else
        (case (from_q, to_q) of
           (Some f, Some t) \<Rightarrow>
             (case filter_throwing (route_matches w f t)
                     (filter (\<lambda>v. v_status v = ''active'') (vehicles w)) of
                None \<Rightarrow> (internal_error, w, [DbSelect Vehicles])
              | Some relevantRoutes \<Rightarrow>
                  (let routes = map route_view_of relevantRoutes in
                   (reply 200 (RoutePlanBody f t routes (length routes)), w,
                    [DbSelect Vehicles])))
         | _ \<Rightarrow> (reply 400 (ErrorBody ''From and to locations are required''), w, [])))"

text \<open>
  \<open>GET /api/staff/stats\<close>. The ticket query keeps the rows with
  \<open>today + 'T00:00:00' \<le> created_at < today + 'T23:59:59'\<close>; its error is logged and the
  handler goes on with no rows. \<open>x || 0\<close> on a number is the number.
\<close>

definition day_start :: "world \<Rightarrow> nat" where
  "day_start w = today w * ms_per_day"

definition day_last_second :: "world \<Rightarrow> nat" where
  "day_last_second w = today w * ms_per_day + (23 * 3600 + 59 * 60 + 59) * 1000"

definition select_today_tickets :: "world \<Rightarrow> ticket list option" where
  "select_today_tickets w =
     (if db_error w (DbSelect Tickets) then None
      else Some (filter (\<lambda>t. day_start w \<le> t_created_at t \<and> t_created_at t < day_last_second w)
                   (tickets w)))"

definition num_or :: "rat \<Rightarrow> rat \<Rightarrow> rat" where
  "num_or a b = (if a = 0 then b else a)"

definition staffStats :: "world \<Rightarrow> request \<Rightarrow> auth_user \<Rightarrow> result" where
  "staffStats w req user =
     (case select_profile w (user_id user) of
        None \<Rightarrow> (internal_error, w, [DbSelect UserProfiles])
      | Some profileData \<Rightarrow>
          if p_role profileData \<noteq> ''staff'' then
            (reply 403 (ErrorBody ''Only staff can access these stats''), w,
             [DbSelect UserProfiles])
          else
            (let ticketStats = select_today_tickets w;
                 totalPassengers = (case ticketStats of None \<Rightarrow> 0 | Some rows \<Rightarrow> length rows);
                 totalRevenue =
                   (case ticketStats of
                      None \<Rightarrow> 0
                    | Some rows \<Rightarrow>
                        num_or (foldl (\<lambda>sum t. sum + t_fare_amount t) 0 rows) 0);
                 active =
                   (if db_error w (DbSelect Vehicles) then 0
                    else length (filter (\<lambda>v. v_status v = ''active'') (vehicles w)))
             in (reply 200
                   (StatsBody \<lparr>passengers = totalPassengers,
                               revenue = totalRevenue,
                               trips = totalPassengers div 18,
                               hours = 62 / 10,
                               activeVehicles = active\<rparr>),
                 w, [DbSelect UserProfiles, DbSelect Tickets, DbSelect Vehicles])))"

subsection \<open>The router\<close>

text \<open>
  The routes as the server registers them. Express compares the literal parts of a
  path without regard to case; \<open>:id\<close> is one non-empty segment. A request that matches
  no route reaches the final \<open>app.use('*', ...)\<close>.
\<close>

datatype endpoint =
    Health
  | Signup
  | Login
  | Logout
  | ListVehicles
  | GetLocation string
  | PostLocation string
  | BookTicket
  | ListTickets
  | PlanRoute
  | StaffStats
  | NoRoute

definition is_vehicle_location :: "string list \<Rightarrow> bool" where
  "is_vehicle_location p =
     (case p of
        [a, b, vid, c] \<Rightarrow>
          toLowerCase a = ''api'' \<and> toLowerCase b = ''vehicles'' \<and> vid \<noteq> [] \<and>
          toLowerCase c = ''location''
      | _ \<Rightarrow> False)"

definition route :: "http_method \<Rightarrow> string list \<Rightarrow> endpoint" where
  "route m p =
     (let verb = (if m = HEAD then GET else m); q = map toLowerCase p in
      if verb = GET \<and> q = [''api'', ''health''] then Health
      else if verb = POST \<and> q = [''api'', ''auth'', ''signup''] then Signup
      else if verb = POST \<and> q = [''api'', ''auth'', ''login''] then Login
      else if verb = POST \<and> q = [''api'', ''auth'', ''logout''] then Logout
      else if verb = GET \<and> q = [''api'', ''vehicles''] then ListVehicles
      else if verb = GET \<and> is_vehicle_location p then GetLocation (p ! 2)
      else if verb = POST \<and> is_vehicle_location p then PostLocation (p ! 2)
      else if verb = POST \<and> q = [''api'', ''tickets'', ''book''] then BookTicket
      else if verb = GET \<and> q = [''api'', ''tickets''] then ListTickets
      else if verb = GET \<and> q = [''api'', ''routes'', ''plan''] then PlanRoute
      else if verb = GET \<and> q = [''api'', ''staff'', ''stats''] then StaffStats
      else NoRoute)"

text \<open>
  The application: each route with the middleware the server registers it with.
\<close>

definition app :: "world \<Rightarrow> request \<Rightarrow> result" where
  "app w req =
     (case route (meth req) (path req) of
        Health \<Rightarrow> health w req
      | Signup \<Rightarrow> signup w req
      | Login \<Rightarrow> login w req
      | Logout \<Rightarrow> authenticateToken w req (logout w req)
      | ListVehicles \<Rightarrow> authenticateToken w req (listVehicles w req)
      | GetLocation vid \<Rightarrow> authenticateToken w req (\<lambda>user. getLocation w req user vid)
      | PostLocation vid \<Rightarrow> authenticateToken w req (\<lambda>user. postLocation w req user vid)
      | BookTicket \<Rightarrow> authenticateToken w req (bookTicket w req)
      | ListTickets \<Rightarrow> authenticateToken w req (listTickets w req)
      | PlanRoute \<Rightarrow> authenticateToken w req (planRoute w req)
      | StaffStats \<Rightarrow> authenticateToken w req (staffStats w req)
      | NoRoute \<Rightarrow> (reply 404 (ErrorBody ''Route not found''), w, []))"

subsection \<open>The global middleware\<close>

text \<open>
  A request as it arrives: the parsed request; the number of requests the rate
  limiter has counted for the client in the current window, this one included; and
  whether a body parser (\<open>express.json\<close>, \<open>express.urlencoded\<close>) raises an error on the
  body, as for malformed JSON or a body over the size limit (\<open>body\<close> of the parsed
  request is not read then).
\<close>

record arrival =
  parsed :: request
  window_hits :: nat
  body_unparsable :: bool

text \<open>\<open>rateLimit({windowMs: 15 * 60 * 1000, max: 100})\<close>\<close>

definition max_hits :: nat where
  "max_hits = 100"

text \<open>\<open>app.use('/api/', limiter)\<close>: the paths under \<open>/api\<close>.\<close>

definition under_api :: "string list \<Rightarrow> bool" where
  "under_api p = (case p of [] \<Rightarrow> False | a # rest \<Rightarrow> toLowerCase a = ''api'')"

text \<open>
  The middleware in the order the server registers it. The CORS middleware ends an
  \<open>OPTIONS\<close> request with 204. The rate limiter answers 429 once the client is over
  the limit. An error of a body parser skips the routes and reaches the
  error-handling middleware registered after them, which answers 500. Every other
  request goes to the router.
\<close>

definition server :: "world \<Rightarrow> arrival \<Rightarrow> result" where
  "server w a =
     (if meth (parsed a) = OPTIONS then (reply 204 EmptyBody, w, [])
      else if under_api (path (parsed a)) \<and> max_hits < window_hits a then
        (reply 429 (PlainText ''Too many requests, please try again later.''), w, [])
      else if body_unparsable a then (internal_error, w, [])
      else app w (parsed a))"

subsection \<open>The spec's readings\<close>







subsection \<open>Sample worlds and requests\<close>

text \<open>
  A small deployment used to run the handlers: a staff member, a traveller, an
  identity the authentication service knows but that has no profile row, and the two
  vehicles of the spec's route-plan scenario.
\<close>

definition staff_user :: auth_user where
  "staff_user = \<lparr>user_id = ''u-staff'', user_email = ''staff@example.org''\<rparr>"

definition traveller_user :: auth_user where
  "traveller_user = \<lparr>user_id = ''u-trav'', user_email = ''trav@example.org''\<rparr>"

definition ghost_user :: auth_user where
  "ghost_user = \<lparr>user_id = ''u-ghost'', user_email = ''ghost@example.org''\<rparr>"

definition sample_profile :: "string \<Rightarrow> string \<Rightarrow> profile" where
  "sample_profile uid r =
     \<lparr>p_id = uid, p_email = JStr ''someone@example.org'', p_name = JStr ''Someone'',
      p_phone = JStr ''555-0100'', p_role = r, p_created_at = 0, p_updated_at = 0\<rparr>"

definition bus :: "string \<Rightarrow> string \<Rightarrow> nat \<Rightarrow> vehicle" where
  "bus vid name created =
     \<lparr>v_id = vid, v_vehicle_number = JStr ''KA-01'', v_route_name = Some name,
      v_status = ''active'', v_capacity = JNum 40, v_vehicle_type = JStr ''bus'',
      v_next_stop = JNull, v_eta = JNull, v_base_fare = JNull,
      v_created_at = created, v_updated_at = created\<rparr>"

definition sample_ticket :: "string \<Rightarrow> string \<Rightarrow> rat \<Rightarrow> nat \<Rightarrow> ticket" where
  "sample_ticket tid uid fare created =
     \<lparr>t_ticket_id = tid, t_user_id = uid, t_vehicle_id = JStr ''v1'',
      t_from_location = JStr ''Market'', t_to_location = JStr ''Station'',
      t_fare_amount = fare, t_booking_status = ''confirmed'',
      t_travel_date = created div ms_per_day,
      t_created_at = created, t_updated_at = created\<rparr>"

definition sample_getUser :: "string \<Rightarrow> getuser_result" where
  "sample_getUser t =
     (if t = ''staff-token'' then GetUserReturns (Some staff_user) False
      else if t = ''trav-token'' then GetUserReturns (Some traveller_user) False
      else if t = ''ghost-token'' then GetUserReturns (Some ghost_user) False
      else GetUserReturns None True)"

definition json_number :: "json \<Rightarrow> rat option" where
  "json_number j = (case j of JNum r \<Rightarrow> Some r | _ \<Rightarrow> None)"

text \<open>
  The clock stands at 2025-11-03T10:59:59.900Z, in day 20395 of the epoch. Every
  string of the samples is ASCII, so the engine's case tables are never consulted.
\<close>

definition sample_world :: world where
  "sample_world =
     \<lparr>user_profiles = [sample_profile ''u-staff'' ''staff'',
                       sample_profile ''u-trav'' ''traveller''],
      vehicles = [bus ''v1'' ''Downtown Express'' 1, bus ''v2'' ''Airport Shuttle'' 2],
      vehicle_locations = [],
      tickets = [sample_ticket ''TKT-1-AAAAAA'' ''u-trav'' 20 1000,
                 sample_ticket ''TKT-2-BBBBBB'' ''u-other'' 25 2000,
                 sample_ticket ''TKT-3-CCCCCC'' ''u-trav'' 30 3000],
      auth_getUser = sample_getUser,
      auth_signUp = (\<lambda>email password. AuthError ''Signups not allowed''),
      auth_signInWithPassword = (\<lambda>email password. AuthError ''Invalid login credentials''),
      auth_signOut_error = False,
      db_error = (\<lambda>c. False),
      numeric_cast = json_number,
      clock = 1762167599900,
      random36 = ''0.4fzyo82mvyr'',
      unicode_toLowerCase = (\<lambda>s. s)\<rparr>"

definition bearer :: "string \<Rightarrow> string option" where
  "bearer t = Some (''Bearer '' @ t)"

definition api_request ::
  "http_method \<Rightarrow> string list \<Rightarrow> string option \<Rightarrow> (string \<rightharpoonup> json) \<Rightarrow> request" where
  "api_request m segments auth json_body =
     \<lparr>meth = m, path = ''api'' # segments, authorization = auth, body = json_body,
      query = Map.empty\<rparr>"

definition booking_fields :: "string \<rightharpoonup> json" where
  "booking_fields =
     [''vehicleId'' \<mapsto> JStr ''v1'', ''fromLocation'' \<mapsto> JStr ''Market'',
      ''toLocation'' \<mapsto> JStr ''Station'', ''fare'' \<mapsto> JNum 20]"

definition position_fields :: "rat \<Rightarrow> rat \<Rightarrow> string \<rightharpoonup> json" where
  "position_fields la lo = [''latitude'' \<mapsto> JNum la, ''longitude'' \<mapsto> JNum lo]"

definition signup_fields :: "string \<Rightarrow> string \<rightharpoonup> json" where
  "signup_fields r =
     [''email'' \<mapsto> JStr ''new@example.org'', ''password'' \<mapsto> JStr ''secret'',
      ''name'' \<mapsto> JStr ''New User'', ''phone'' \<mapsto> JStr ''555-0101'',
      ''role'' \<mapsto> JStr r]"

definition plan_request :: "string \<Rightarrow> string \<Rightarrow> request" where
  "plan_request f t =
     (api_request GET [''routes'', ''plan''] (bearer ''trav-token'') Map.empty)
       \<lparr>query := [''from'' \<mapsto> QStr f, ''to'' \<mapsto> QStr t]\<rparr>"

text \<open>The view the ticket listing gives of a sample ticket.\<close>

definition sample_view :: "string \<Rightarrow> rat \<Rightarrow> nat \<Rightarrow> ticket_view" where
  "sample_view tid fare created =
     \<lparr>tv_id = tid, tv_vehicleNumber = JStr ''KA-01'', tv_route = Some ''Downtown Express'',
           tv_from = JStr ''Market'', tv_to = JStr ''Station'', tv_fare = fare,
           tv_bookedAt = created, tv_travelDate = created div ms_per_day,
           tv_status = ''confirmed''\<rparr>"

text \<open>
  The sample world when \<open>Math.random()\<close> returns 0.5, which base 36 prints as \<open>0.i\<close>.
\<close>

definition short_random_world :: world where
  "short_random_world = sample_world\<lparr>random36 := ''0.i''\<rparr>"

text \<open>
  One ticket booked at 2025-11-03T23:59:59.500Z, and the clock 400 ms later on the
  same UTC day.
\<close>

definition late_ticket :: ticket where
  "late_ticket = sample_ticket ''TKT-9-ZZZZZZ'' ''u-trav'' 20 1762214399500"

definition late_world :: world where
  "late_world = sample_world\<lparr>tickets := [late_ticket], clock := 1762214399900\<rparr>"

text \<open>The spec's staff-stats scenario: three tickets booked earlier on the clock's day.\<close>

definition scenario_world :: world where
  "scenario_world =
     sample_world\<lparr>tickets := [sample_ticket ''TKT-4-DDDDDD'' ''u-trav'' 20 1762130000000,
                              sample_ticket ''TKT-5-EEEEEE'' ''u-other'' 25 1762140000000,
                              sample_ticket ''TKT-6-FFFFFF'' ''u-trav'' 30 1762150000000]\<rparr>"

definition stats_request :: request where
  "stats_request = api_request GET [''staff'', ''stats''] (bearer ''staff-token'') Map.empty"

text \<open>
  The sample staff member reports the position of vehicle \<open>v1\<close> twice, a minute apart;
  the clock moves on between the two requests.
\<close>

definition post_position :: "rat \<Rightarrow> rat \<Rightarrow> request" where
  "post_position la lo =
     api_request POST [''vehicles'', ''v1'', ''location''] (bearer ''staff-token'')
       (position_fields la lo)"

definition sample_position :: "rat \<Rightarrow> rat \<Rightarrow> nat \<Rightarrow> location" where
  "sample_position la lo created =
     \<lparr>l_vehicle_id = ''v1'', l_latitude = JNum la, l_longitude = JNum lo,
      l_speed = JNum 0, l_heading = JNum 0, l_updated_by = ''u-staff'',
      l_created_at = created, l_updated_at = created\<rparr>"

definition after_first_post :: world where
  "after_first_post = world_of (app sample_world (post_position 10 20))"

definition after_second_post :: world where
  "after_second_post =
     world_of (app (after_first_post\<lparr>clock := clock after_first_post + 60000\<rparr>)
                 (post_position 11 21))"

text \<open>The id, \<open>lat\<close> and \<open>lng\<close> of each vehicle of a listing.\<close>

definition positions :: "payload \<Rightarrow> (string \<times> json \<times> json) list" where
  "positions b =
     (case b of VehiclesBody views \<Rightarrow> map (\<lambda>v. (vv_id v, vv_lat v, vv_lng v)) views
      | _ \<Rightarrow> [])"

text \<open>A request that passes the rate limiter and the body parsers.\<close>

definition arriving :: "request \<Rightarrow> arrival" where
  "arriving r = \<lparr>parsed = r, window_hits = 1, body_unparsable = False\<rparr>"

text \<open>The sample world while the datastore refuses to read the vehicles table.\<close>

definition outage_world :: world where
  "outage_world = sample_world\<lparr>db_error := (\<lambda>c. c = DbSelect Vehicles)\<rparr>"

text \<open>The sample world with a third active vehicle whose route name is null.\<close>

definition unnamed_route_world :: world where
  "unnamed_route_world =
     sample_world\<lparr>vehicles := vehicles sample_world @
                     [(bus ''v3'' ''Harbour Loop'' 3)\<lparr>v_route_name := None\<rparr>]\<rparr>"

declare decimal.simps [simp del]

subsection \<open>Reading results\<close>

lemma response_of_simp [simp]: "response_of (r, w, cs) = r"
  by (simp add: response_of_def)

lemma world_of_simp [simp]: "world_of (r, w, cs) = w"
  by (simp add: world_of_def)

lemma calls_of_simp [simp]: "calls_of (r, w, cs) = cs"
  by (simp add: calls_of_def)

lemma status_reply [simp]: "status (reply code b) = code"
  by (simp add: reply_def)

lemma content_reply [simp]: "content (reply code b) = b"
  by (simp add: reply_def)

subsection \<open>The middleware in three cases\<close>



lemma authenticateToken_accepted:
  assumes "header_token (authorization req) = Some t" and "t \<noteq> []"
    and "auth_getUser w t = GetUserReturns (Some u) False"
  shows "authenticateToken w req next =
           (case next u of (res, w', calls) \<Rightarrow> (res, w', AuthGetUser t # calls))"
  using assms by (simp add: authenticateToken_def no_token_def)


text \<open>Behind an accepted token the application is the route's handler.\<close>

lemma app_accepted:
  assumes "header_token (authorization req) = Some t" and "t \<noteq> []"
    and "auth_getUser w t = GetUserReturns (Some u) False"
  shows "route (meth req) (path req) = PostLocation vid \<Longrightarrow>
           app w req = (case postLocation w req u vid of
                          (res, w', calls) \<Rightarrow> (res, w', AuthGetUser t # calls))"
    and "route (meth req) (path req) = BookTicket \<Longrightarrow>
           app w req = (case bookTicket w req u of
                          (res, w', calls) \<Rightarrow> (res, w', AuthGetUser t # calls))"
    and "route (meth req) (path req) = StaffStats \<Longrightarrow>
           app w req = (case staffStats w req u of
                          (res, w', calls) \<Rightarrow> (res, w', AuthGetUser t # calls))"
    and "route (meth req) (path req) = ListTickets \<Longrightarrow>
           app w req = (case listTickets w req u of
                          (res, w', calls) \<Rightarrow> (res, w', AuthGetUser t # calls))"
    and "route (meth req) (path req) = PlanRoute \<Longrightarrow>
           app w req = (case planRoute w req u of
                          (res, w', calls) \<Rightarrow> (res, w', AuthGetUser t # calls))"
    and "route (meth req) (path req) = ListVehicles \<Longrightarrow>
           app w req = (case listVehicles w req u of
                          (res, w', calls) \<Rightarrow> (res, w', AuthGetUser t # calls))"
  using assms by (simp_all add: app_def authenticateToken_accepted)

subsection \<open>The samples, evaluated\<close>

lemmas string_case_defs = toLowerCase_def lower_char_def upper_chars_def lower_chars_def

lemma route_samples:
  "route GET [''api'', ''vehicles''] = ListVehicles"
  "route GET [''api'', ''unknown''] = NoRoute"
  "route POST [''api'', ''vehicles'', ''v1'', ''location''] = PostLocation ''v1''"
  "route POST [''api'', ''auth'', ''signup''] = Signup"
  "route POST [''api'', ''tickets'', ''book''] = BookTicket"
  "route GET [''api'', ''tickets''] = ListTickets"
  "route GET [''api'', ''routes'', ''plan''] = PlanRoute"
  "route GET [''api'', ''staff'', ''stats''] = StaffStats"
  by (simp_all add: route_def is_vehicle_location_def string_case_defs)

lemma header_token_samples:
  "header_token None = None"
  "header_token (bearer ''staff-token'') = Some ''staff-token''"
  "header_token (bearer ''trav-token'') = Some ''trav-token''"
  "header_token (bearer ''ghost-token'') = Some ''ghost-token''"
  "header_token (bearer ''bogus'') = Some ''bogus''"
  by (simp_all add: header_token_def bearer_def at_index_def)

lemma sample_getUser_samples:
  "sample_getUser ''staff-token'' = GetUserReturns (Some staff_user) False"
  "sample_getUser ''trav-token'' = GetUserReturns (Some traveller_user) False"
  "sample_getUser ''ghost-token'' = GetUserReturns (Some ghost_user) False"
  "sample_getUser ''bogus'' = GetUserReturns None True"
  by (simp_all add: sample_getUser_def)

lemma sample_world_fields [simp]:
  "auth_getUser sample_world = sample_getUser"
  "db_error sample_world c = False"
  "numeric_cast sample_world = json_number"
  "clock sample_world = 1762167599900"
  "random36 sample_world = ''0.4fzyo82mvyr''"
  "user_profiles sample_world =
     [sample_profile ''u-staff'' ''staff'', sample_profile ''u-trav'' ''traveller'']"
  "vehicles sample_world = [bus ''v1'' ''Downtown Express'' 1, bus ''v2'' ''Airport Shuttle'' 2]"
  "vehicle_locations sample_world = []"
  "tickets sample_world =
     [sample_ticket ''TKT-1-AAAAAA'' ''u-trav'' 20 1000,
      sample_ticket ''TKT-2-BBBBBB'' ''u-other'' 25 2000,
      sample_ticket ''TKT-3-CCCCCC'' ''u-trav'' 30 3000]"
  by (simp_all add: sample_world_def)

lemma api_request_fields [simp]:
  "meth (api_request m segs a b) = m"
  "path (api_request m segs a b) = ''api'' # segs"
  "authorization (api_request m segs a b) = a"
  "body (api_request m segs a b) = b"
  "query (api_request m segs a b) = Map.empty"
  by (simp_all add: api_request_def)


lemma sample_ticket_fields [simp]:
  "t_ticket_id (sample_ticket tid uid fare created) = tid"
  "t_user_id (sample_ticket tid uid fare created) = uid"
  "t_vehicle_id (sample_ticket tid uid fare created) = JStr ''v1''"
  "t_created_at (sample_ticket tid uid fare created) = created"
  "t_fare_amount (sample_ticket tid uid fare created) = fare"
  by (simp_all add: sample_ticket_def)

lemma bus_fields [simp]:
  "v_id (bus vid name created) = vid"
  "v_route_name (bus vid name created) = Some name"
  "v_status (bus vid name created) = ''active''"
  "v_created_at (bus vid name created) = created"
  by (simp_all add: bus_def)

lemma route_location_sample:
  "route GET [''api'', ''vehicles'', ''v1'', ''location''] = GetLocation ''v1''"
  by (simp add: route_def is_vehicle_location_def string_case_defs)

section \<open>The claims\<close>

subsection \<open>C1: requests without a valid token\<close>



lemma arriving_fields [simp]:
  "parsed (arriving r) = r"
  "window_hits (arriving r) = 1"
  "body_unparsable (arriving r) = False"
  by (simp_all add: arriving_def)





subsection \<open>C2: only staff write locations\<close>



subsection \<open>C3: signup with a role outside the enum\<close>

text \<open>
  Claim C3. A signup request whose role is neither the string \<open>traveller\<close> nor the
  string \<open>staff\<close> (whatever else it is, and whatever the other fields are) is answered
  400 before any external call: neither \<open>signUp\<close> nor the profile insert is made, and
  the world is unchanged.
\<close>

theorem signup_with_unknown_role_is_400:
  assumes "route (meth req) (path req) = Signup"
    and "body req ''role'' \<noteq> Some (JStr ''traveller'')"
    and "body req ''role'' \<noteq> Some (JStr ''staff'')"
  shows "status (response_of (app w req)) = 400 \<and> calls_of (app w req) = [] \<and>
         world_of (app w req) = w"
  using assms by (simp add: app_def signup_def Let_def)

text \<open>A complete signup body with the role \<open>admin\<close>.\<close>

theorem signup_with_unknown_role_is_400_witness:
  "body (api_request POST [''auth'', ''signup''] None (signup_fields ''admin'')) ''role''
     = Some (JStr ''admin'')
   \<and> status (response_of (app sample_world
        (api_request POST [''auth'', ''signup''] None (signup_fields ''admin'')))) = 400
   \<and> calls_of (app sample_world
        (api_request POST [''auth'', ''signup''] None (signup_fields ''admin''))) = []
   \<and> world_of (app sample_world
        (api_request POST [''auth'', ''signup''] None (signup_fields ''admin''))) = sample_world"
  using signup_with_unknown_role_is_400
          [of "api_request POST [''auth'', ''signup''] None (signup_fields ''admin'')"
              sample_world]
  by (simp add: route_samples signup_fields_def)

subsection \<open>C4: booking checks the fields, then the role\<close>




subsection \<open>C10: an identity without a profile row\<close>

text \<open>
  Claim C10, amended. For an authenticated caller with no \<open>user_profiles\<close> row:
  \<open>POST /api/vehicles/:id/location\<close> and \<open>GET /api/staff/stats\<close> are answered 500, and
  so is \<open>POST /api/tickets/book\<close> when its four fields are all present and truthy (the
  role check reads the role of a missing profile and the handler's \<open>catch\<close> answers).
  The world is unchanged.
\<close>

theorem missing_profile_is_500:
  assumes "header_token (authorization req) = Some t" and "t \<noteq> []"
    and "auth_getUser w t = GetUserReturns (Some u) False"
    and "filter (\<lambda>p. p_id p = user_id u) (user_profiles w) = []"
  shows "(\<forall>vid. route (meth req) (path req) = PostLocation vid \<longrightarrow>
            app w req = (reply 500 (ErrorBody ''Internal server error''), w,
                         [AuthGetUser t, DbSelect UserProfiles]))
       \<and> (route (meth req) (path req) = StaffStats \<longrightarrow>
            app w req = (reply 500 (ErrorBody ''Internal server error''), w,
                         [AuthGetUser t, DbSelect UserProfiles]))
       \<and> (route (meth req) (path req) = BookTicket \<and>
          \<not> falsy (body req ''vehicleId'') \<and> \<not> falsy (body req ''fromLocation'') \<and>
          \<not> falsy (body req ''toLocation'') \<and> \<not> falsy (body req ''fare'') \<longrightarrow>
            app w req = (reply 500 (ErrorBody ''Internal server error''), w,
                         [AuthGetUser t, DbSelect UserProfiles]))"
proof -
  have none: "select_profile w (user_id u) = None"
    using assms(4) by (simp add: select_profile_def single_def)
  show ?thesis
    using assms(1-3) none
    by (auto simp: app_accepted postLocation_def staffStats_def bookTicket_def Let_def
          internal_error_def)
qed

text \<open>The three endpoints called by the sample identity that has no profile.\<close>

theorem missing_profile_is_500_witness:
  "app sample_world
     (api_request POST [''vehicles'', ''v1'', ''location''] (bearer ''ghost-token'')
        (position_fields 12 77)) =
     (reply 500 (ErrorBody ''Internal server error''), sample_world,
      [AuthGetUser ''ghost-token'', DbSelect UserProfiles])
   \<and> app sample_world
     (api_request GET [''staff'', ''stats''] (bearer ''ghost-token'') Map.empty) =
     (reply 500 (ErrorBody ''Internal server error''), sample_world,
      [AuthGetUser ''ghost-token'', DbSelect UserProfiles])
   \<and> app sample_world
     (api_request POST [''tickets'', ''book''] (bearer ''ghost-token'') booking_fields) =
     (reply 500 (ErrorBody ''Internal server error''), sample_world,
      [AuthGetUser ''ghost-token'', DbSelect UserProfiles])"
  using missing_profile_is_500
          [where req = "api_request POST [''vehicles'', ''v1'', ''location'']
                          (bearer ''ghost-token'') (position_fields 12 77)"
             and t = "''ghost-token''" and w = sample_world and u = ghost_user]
        missing_profile_is_500
          [where req = "api_request GET [''staff'', ''stats''] (bearer ''ghost-token'') Map.empty"
             and t = "''ghost-token''" and w = sample_world and u = ghost_user]
        missing_profile_is_500
          [where req = "api_request POST [''tickets'', ''book''] (bearer ''ghost-token'')
                          booking_fields"
             and t = "''ghost-token''" and w = sample_world and u = ghost_user]
  by (simp add: route_samples header_token_samples sample_getUser_samples
        booking_fields_def ghost_user_def sample_profile_def)

text \<open>
  C10 as stated fails for a booking without its fields: the field check comes before
  the role check, and the identity without a profile gets 400, not 500.
\<close>

theorem profileless_booking_without_fields_is_400:
  "map p_id (user_profiles sample_world) = [''u-staff'', ''u-trav'']
   \<and> user_id ghost_user = ''u-ghost''
   \<and> sample_getUser ''ghost-token'' = GetUserReturns (Some ghost_user) False
   \<and> status (response_of (app sample_world
        (api_request POST [''tickets'', ''book''] (bearer ''ghost-token'') Map.empty))) = 400
   \<and> status (response_of (app sample_world
        (api_request POST [''tickets'', ''book''] (bearer ''ghost-token'') Map.empty))) \<noteq> 500"
  by (simp add: app_accepted(2) [where t = "''ghost-token''" and u = ghost_user]
        route_samples header_token_samples sample_getUser_samples
        bookTicket_def ghost_user_def sample_profile_def)

subsection \<open>C5: the ticket listing is the caller's\<close>

lemma those_map_list_all2:
  "those (map f xs) = Some ys \<Longrightarrow> list_all2 (\<lambda>x y. f x = Some y) xs ys"
  by (induction xs arbitrary: ys) (auto split: option.splits)

lemma set_order_desc [simp]: "set (order_desc key rows) = set rows"
  by (simp add: order_desc_def)

lemma set_select_user_tickets:
  "set (select_user_tickets w uid) = {r \<in> set (tickets w). t_user_id r = uid}"
  by (auto simp: select_user_tickets_def)

lemma listTickets_body:
  assumes "content (response_of (listTickets w req u)) = TicketsBody views"
  shows "those (map (ticket_view_of w) (select_user_tickets w (user_id u))) = Some views"
  using assms
  by (auto simp: listTickets_def internal_error_def split: if_splits option.splits)

text \<open>
  Claim C5. When \<open>GET /api/tickets\<close> answers an authenticated user with a list of
  tickets, the list is, entry by entry, the view of the rows the datastore query
  selected, and every one of those rows is a row of the tickets table whose
  \<open>user_id\<close> is that user's id.
\<close>

theorem listed_tickets_belong_to_caller:
  assumes "route (meth req) (path req) = ListTickets"
    and "header_token (authorization req) = Some t" and "t \<noteq> []"
    and "auth_getUser w t = GetUserReturns (Some u) False"
    and "content (response_of (app w req)) = TicketsBody views"
  shows "list_all2 (\<lambda>row view. ticket_view_of w row = Some view \<and>
                      t_user_id row = user_id u \<and> row \<in> set (tickets w))
           (select_user_tickets w (user_id u)) views"
proof -
  have "content (response_of (listTickets w req u)) = TicketsBody views"
    using assms by (simp add: app_accepted(4) split: prod.splits)
  then have "list_all2 (\<lambda>row view. ticket_view_of w row = Some view)
               (select_user_tickets w (user_id u)) views"
    by (intro those_map_list_all2 listTickets_body)
  moreover have "\<forall>row \<in> set (select_user_tickets w (user_id u)).
                   t_user_id row = user_id u \<and> row \<in> set (tickets w)"
    by (simp add: set_select_user_tickets)
  ultimately show ?thesis
    by (auto simp: list_all2_conv_all_nth)
qed

lemma sample_select_user_tickets:
  "select_user_tickets sample_world ''u-trav'' =
     [sample_ticket ''TKT-3-CCCCCC'' ''u-trav'' 30 3000,
      sample_ticket ''TKT-1-AAAAAA'' ''u-trav'' 20 1000]"
  by (simp add: select_user_tickets_def order_desc_def)

lemma sample_ticket_view:
  "ticket_view_of sample_world (sample_ticket tid uid fare created) =
     Some (sample_view tid fare created)"
  by (simp add: ticket_view_of_def bus_def sample_ticket_def sample_view_def)

lemma sample_list_tickets:
  "app sample_world (api_request GET [''tickets''] (bearer ''trav-token'') Map.empty) =
     (reply 200 (TicketsBody [sample_view ''TKT-3-CCCCCC'' 30 3000,
                             sample_view ''TKT-1-AAAAAA'' 20 1000]),
      sample_world, [AuthGetUser ''trav-token'', DbSelect Tickets])"
  by (simp add: app_accepted(4) [where t = "''trav-token''" and u = traveller_user]
        route_samples header_token_samples sample_getUser_samples listTickets_def
        traveller_user_def sample_select_user_tickets sample_ticket_view)

text \<open>
  The sample traveller owns two of the three tickets of the sample world; the listing
  has these two, newest first.
\<close>

theorem listed_tickets_belong_to_caller_witness:
  "content (response_of (app sample_world
       (api_request GET [''tickets''] (bearer ''trav-token'') Map.empty))) =
     TicketsBody [sample_view ''TKT-3-CCCCCC'' 30 3000, sample_view ''TKT-1-AAAAAA'' 20 1000]
   \<and> list_all2 (\<lambda>row view. ticket_view_of sample_world row = Some view \<and>
                   t_user_id row = ''u-trav'' \<and> row \<in> set (tickets sample_world))
        [sample_ticket ''TKT-3-CCCCCC'' ''u-trav'' 30 3000,
         sample_ticket ''TKT-1-AAAAAA'' ''u-trav'' 20 1000]
        [sample_view ''TKT-3-CCCCCC'' 30 3000, sample_view ''TKT-1-AAAAAA'' 20 1000]
   \<and> sample_ticket ''TKT-2-BBBBBB'' ''u-other'' 25 2000 \<in> set (tickets sample_world)"
  using listed_tickets_belong_to_caller
          [where req = "api_request GET [''tickets''] (bearer ''trav-token'') Map.empty"
             and t = "''trav-token''" and w = sample_world and u = traveller_user
             and views = "[sample_view ''TKT-3-CCCCCC'' 30 3000,
                           sample_view ''TKT-1-AAAAAA'' 20 1000]"]
  by (simp add: route_samples header_token_samples sample_getUser_samples
        sample_list_tickets sample_select_user_tickets traveller_user_def)

subsection \<open>C7: the route planner\<close>















lemma plan_request_fields [simp]:
  "meth (plan_request f t) = GET"
  "path (plan_request f t) = [''api'', ''routes'', ''plan'']"
  "authorization (plan_request f t) = bearer ''trav-token''"
  "query (plan_request f t) ''from'' = Some (QStr f)"
  "query (plan_request f t) ''to'' = Some (QStr t)"
  by (simp_all add: plan_request_def)




lemma outage_world_fields [simp]:
  "auth_getUser outage_world = sample_getUser"
  "db_error outage_world (DbSelect Vehicles) = True"
  by (simp_all add: outage_world_def)

lemma unnamed_route_world_fields [simp]:
  "auth_getUser unnamed_route_world = sample_getUser"
  "db_error unnamed_route_world c = False"
  "vehicles unnamed_route_world =
     [bus ''v1'' ''Downtown Express'' 1, bus ''v2'' ''Airport Shuttle'' 2,
      (bus ''v3'' ''Harbour Loop'' 3)\<lparr>v_route_name := None\<rparr>]"
  by (simp_all add: unnamed_route_world_def)


subsection \<open>C6: the ticket identifier\<close>

lemma short_suffix: "ticketId 1762167599900 ''0.i'' = ''TKT-1762167599900-I''"
  by (simp add: ticketId_def substr_def toUpperCase_def upper_char_def upper_chars_def
        lower_chars_def digit_chars_def decimal.simps)

text \<open>
  The identifier is the prefix, the clock in decimal digits, a dash and the upper-cased
  characters 2 to 7 of the random expansion: as many of them as the expansion has, and
  six at most.
\<close>

lemma decimal_digits: "decimal n \<noteq> [] \<and> list_all (\<lambda>c. c \<in> set digit_chars) (decimal n)"
proof (induction n rule: decimal.induct)
  case (1 n)
  have digit: "digit_chars ! k \<in> set digit_chars" if "k < 10" for k
    using that by (intro nth_mem) (simp add: digit_chars_def)
  show ?case
  proof (cases "n < 10")
    case True
    then show ?thesis
      using digit [of n] by (subst (1 2) decimal.simps) simp
  next
    case False
    then show ?thesis
      using "1.IH" digit [of "n mod 10"] by (subst (1 2) decimal.simps) simp
  qed
qed

lemma ticketId_suffix:
  "ticketId now rnd36 = ''TKT-'' @ decimal now @ ''-'' @ toUpperCase (take 6 (drop 2 rnd36))"
  "length (toUpperCase (take 6 (drop 2 rnd36))) = min 6 (length rnd36 - 2)"
  by (simp_all add: ticketId_def substr_def toUpperCase_def)

text \<open>
  Claim C6 asks for exactly six characters after the second dash. The handler takes
  \<open>substr(2, 6)\<close> of \<open>Math.random().toString(36)\<close>, which is shorter than six
  characters when the base-36 expansion is: for the random value 0.5 the expansion is
  \<open>0.i\<close>, the booking succeeds and the stored identifier is \<open>TKT-1762167599900-I\<close>,
  with a suffix of one character.
\<close>

theorem short_random_expansion_gives_short_suffix:
  "random36 short_random_world = ''0.i''
   \<and> status (response_of (app short_random_world
        (api_request POST [''tickets'', ''book''] (bearer ''trav-token'') booking_fields))) = 201
   \<and> map t_ticket_id (tickets (world_of (app short_random_world
        (api_request POST [''tickets'', ''book''] (bearer ''trav-token'') booking_fields)))) =
       [''TKT-1-AAAAAA'', ''TKT-2-BBBBBB'', ''TKT-3-CCCCCC'', ''TKT-1762167599900-I'']"
  by (simp add: app_accepted(2) [where t = "''trav-token''" and u = traveller_user]
        short_random_world_def route_samples header_token_samples sample_getUser_samples
        bookTicket_def booking_fields_def select_profile_def single_def sample_profile_def
        traveller_user_def select_vehicle_def field_value_def json_number_def short_suffix
        Let_def)

subsection \<open>C8: the staff statistics\<close>

lemma late_world_fields [simp]:
  "auth_getUser late_world = sample_getUser"
  "db_error late_world c = False"
  "clock late_world = 1762214399900"
  "user_profiles late_world = user_profiles sample_world"
  "vehicles late_world = vehicles sample_world"
  "tickets late_world = [late_ticket]"
  by (simp_all add: late_world_def)

lemma scenario_world_fields [simp]:
  "auth_getUser scenario_world = sample_getUser"
  "db_error scenario_world c = False"
  "clock scenario_world = 1762167599900"
  "user_profiles scenario_world = user_profiles sample_world"
  "vehicles scenario_world = vehicles sample_world"
  by (simp_all add: scenario_world_def)

text \<open>
  The spec's scenario, with the three tickets booked before the last second of the
  day: 3 passengers, revenue 75, 0 trips.
\<close>

lemma staff_stats_scenario:
  "map t_fare_amount (tickets scenario_world) = [20, 25, 30]
   \<and> content (response_of (app scenario_world stats_request)) =
       StatsBody \<lparr>passengers = 3, revenue = 75, trips = 0, hours = 62 / 10,
                  activeVehicles = 2\<rparr>"
  by (simp add: app_accepted(3) [where t = "''staff-token''" and u = staff_user]
        stats_request_def route_samples header_token_samples sample_getUser_samples
        staffStats_def select_profile_def single_def sample_profile_def staff_user_def
        select_today_tickets_def day_start_def day_last_second_def today_def ms_per_day_def
        scenario_world_def num_or_def)

text \<open>
  What the handler computes for a staff caller when the ticket query answers: the
  count and the fare sum of the rows in the query's window, and the count divided by 18.
\<close>

lemma staffStats_by_staff:
  assumes "select_profile w (user_id u) = Some profileData" and "p_role profileData = ''staff''"
    and "\<not> db_error w (DbSelect Tickets)"
  shows "\<exists>n. content (response_of (staffStats w req u)) =
           StatsBody \<lparr>passengers =
                        length (filter (\<lambda>t. day_start w \<le> t_created_at t \<and>
                                             t_created_at t < day_last_second w) (tickets w)),
                      revenue =
                        sum_list (map t_fare_amount
                          (filter (\<lambda>t. day_start w \<le> t_created_at t \<and>
                                       t_created_at t < day_last_second w) (tickets w))),
                      trips =
                        length (filter (\<lambda>t. day_start w \<le> t_created_at t \<and>
                                             t_created_at t < day_last_second w) (tickets w))
                          div 18,
                      hours = 62 / 10, activeVehicles = n\<rparr>"
proof -
  have fold: "foldl (\<lambda>sum t. sum + t_fare_amount t) a rows = a + sum_list (map t_fare_amount rows)"
    for a rows
    by (induction rows arbitrary: a) simp_all
  show ?thesis
    using assms
    by (simp add: staffStats_def select_today_tickets_def num_or_def fold Let_def)
qed

text \<open>
  Claim C8 counts today's ticket rows. The handler's upper bound is
  \<open>today + 'T23:59:59'\<close> with \<open>lt\<close>, so a ticket booked in the last second of the
  day is left out: with one ticket booked at 23:59:59.500 and the statistics
  requested 400 ms later on the same day, the handler reports no passenger and no
  revenue.
\<close>

theorem ticket_of_last_second_is_not_counted:
  "tickets late_world = [late_ticket]
   \<and> t_created_at late_ticket div ms_per_day = today late_world
   \<and> content (response_of (app late_world stats_request)) =
       StatsBody \<lparr>passengers = 0, revenue = 0, trips = 0, hours = 62 / 10,
                  activeVehicles = 2\<rparr>"
  by (simp add: app_accepted(3) [where t = "''staff-token''" and u = staff_user]
        stats_request_def route_samples header_token_samples sample_getUser_samples
        staffStats_def select_profile_def single_def sample_profile_def staff_user_def
        select_today_tickets_def day_start_def day_last_second_def today_def ms_per_day_def
        late_ticket_def num_or_def)

subsection \<open>C9: the position in the vehicle listing\<close>

lemma postLocation_by_sample_staff:
  assumes "auth_getUser w = sample_getUser" and "\<And>c. db_error w c = False"
    and "user_profiles w = user_profiles sample_world"
    and "la \<noteq> 0" and "lo \<noteq> 0"
  shows "world_of (app w (post_position la lo)) =
           w\<lparr>vehicle_locations := vehicle_locations w @ [sample_position la lo (clock w)],
             vehicles := map (\<lambda>v. if v_id v = ''v1''
                                   then v\<lparr>v_status := ''active'', v_updated_at := clock w\<rparr>
                                   else v) (vehicles w)\<rparr>"
  using assms
  by (simp add: app_accepted(1) [where t = "''staff-token''" and u = staff_user and vid = "''v1''"]
        post_position_def route_samples header_token_samples sample_getUser_samples
        postLocation_def select_profile_def single_def sample_profile_def staff_user_def
        position_fields_def field_value_def sample_position_def Let_def)

lemma after_first_post_eq:
  "after_first_post =
     sample_world\<lparr>vehicle_locations := [sample_position 10 20 1762167599900],
       vehicles := [(bus ''v1'' ''Downtown Express'' 1)
                      \<lparr>v_status := ''active'', v_updated_at := 1762167599900\<rparr>,
                    bus ''v2'' ''Airport Shuttle'' 2]\<rparr>"
  unfolding after_first_post_def
  by (subst postLocation_by_sample_staff) simp_all

lemma after_second_post_eq:
  "after_second_post =
     sample_world\<lparr>vehicle_locations := [sample_position 10 20 1762167599900,
                                        sample_position 11 21 1762167659900],
       vehicles := [(bus ''v1'' ''Downtown Express'' 1)
                      \<lparr>v_status := ''active'', v_updated_at := 1762167659900\<rparr>,
                    bus ''v2'' ''Airport Shuttle'' 2],
       clock := 1762167659900\<rparr>"
  unfolding after_second_post_def
  by (subst postLocation_by_sample_staff) (simp_all add: after_first_post_eq)

text \<open>
  The listing's position of a vehicle: null without a location row, otherwise the
  coordinates of the first embedded row (null where that coordinate is falsy).
\<close>

lemma vehicle_view_position:
  "vv_lat (vehicle_view_of w v) =
     (case current_location w v of [] \<Rightarrow> JNull | l # rest \<Rightarrow> js_or (l_latitude l) JNull)"
  "vv_lng (vehicle_view_of w v) =
     (case current_location w v of [] \<Rightarrow> JNull | l # rest \<Rightarrow> js_or (l_longitude l) JNull)"
  by (simp_all add: vehicle_view_of_def at_index_def split: list.splits)

text \<open>
  Claim C9 asks for the most recent location row. The listing's query embeds the
  location rows without an order and the handler reads \<open>current_location[0]\<close>: after
  two position reports for vehicle \<open>v1\<close>, (10, 20) and a minute later (11, 21), the
  listing shows (10, 20), the oldest row, while \<open>GET /api/vehicles/v1/location\<close>,
  which orders by \<open>created_at\<close> descending, answers (11, 21).
\<close>

theorem vehicle_list_shows_first_location_row:
  "map l_created_at (vehicle_locations after_second_post) = [1762167599900, 1762167659900]
   \<and> map l_latitude (vehicle_locations after_second_post) = [JNum 10, JNum 11]
   \<and> map l_longitude (vehicle_locations after_second_post) = [JNum 20, JNum 21]
   \<and> positions (content (response_of (app after_second_post
        (api_request GET [''vehicles''] (bearer ''staff-token'') Map.empty)))) =
       [(''v2'', JNull, JNull), (''v1'', JNum 10, JNum 20)]
   \<and> content (response_of (app after_second_post
        (api_request GET [''vehicles'', ''v1'', ''location''] (bearer ''staff-token'')
           Map.empty))) =
       LocationBody ''v1'' (JNum 11) (JNum 21) 1762167659900 (JNum 0) (JNum 0)"
  by (simp add: after_second_post_eq app_def route_samples route_location_sample
        authenticateToken_accepted [where t = "''staff-token''" and u = staff_user]
        header_token_samples sample_getUser_samples
        listVehicles_def getLocation_def order_desc_def vehicle_view_of_def
        current_location_def at_index_def js_or_def positions_def sample_position_def)

end
